theory Spec2Isabelle
  imports Main "HOL-Library.Word" "HOL-Library.AList"
begin

unbundle bit_operations_syntax

section \<open>PolyPasswordHasher with error-correcting share recovery\<close>

text \<open>
  A shallow embedding of \<^verbatim>\<open>src/pph_ecc/polypasswordhasher.py\<close> (Python 2).
  A \<^verbatim>\<open>PolyPasswordHasher\<close> object is a record of its instance attributes; every
  method takes the object and returns its result together with the object after the
  call, also when the method raises. The per-account dictionaries
  (\<^verbatim>\<open>thisentry\<close>) are shared between \<^verbatim>\<open>accountdict\<close> and
  \<^verbatim>\<open>bootstrap_accounts\<close>, so they live in an explicit object store and both
  containers hold references into it.

  The libraries the module imports (\<^verbatim>\<open>hashlib.sha256\<close>, \<^verbatim>\<open>Crypto.Cipher.AES\<close>,
  \<^verbatim>\<open>reedsolomon\<close>, \<^verbatim>\<open>pickle\<close>, \<^verbatim>\<open>os.urandom\<close>) are parameters of the model.
  Console output (\<^verbatim>\<open>print\<close>) is not modelled: it is neither part of the object nor
  of a return value.
\<close>

subsection \<open>Data\<close>

type_synonym bytes = "8 word list"
type_synonym ref = nat
type_synonym share = "int \<times> bytes"

text \<open>
  Every \<^verbatim>\<open>raise\<close> of the module is a \<^verbatim>\<open>ValueError\<close> told apart by its message;
  the constructors name the messages. \<open>AssertionError\<close> is the \<^verbatim>\<open>assert\<close> of
  \<^verbatim>\<open>_do_bytearray_XOR\<close>, \<open>TypeError\<close> and \<open>AttributeError\<close> are what Python raises
  on \<^verbatim>\<open>None + None\<close>, on a \<^verbatim>\<open>None\<close> key and on a method call on \<^verbatim>\<open>None\<close>,
  \<open>ShareEngineError\<close> is whatever \<^verbatim>\<open>recover_secretdata\<close> raises.
\<close>

datatype error =
    DuplicateUser          \<comment> \<open>"Username exists already!"\<close>
  | InvalidShares          \<comment> \<open>"Invalid number of shares"\<close>
  | ShareExhausted         \<comment> \<open>"Would exceed maximum number of shares"\<close>
  | BootstrapOnly          \<comment> \<open>"Cannot produce shares, still bootstrapping!"\<close>
  | StillBootstrapping     \<comment> \<open>"Still bootstrapping and isolated validation is disabled!"\<close>
  | UnknownUser            \<comment> \<open>"Unknown user"\<close>
  | UnderThreshold         \<comment> \<open>"Would write undecodable password file."\<close>
  | AlreadyUnlocked        \<comment> \<open>"PPH is already in normal operation!"\<close>
  | BadUnlock              \<comment> \<open>"This is not a valid secret recombination"\<close>
  | AssertionError
  | TypeError
  | AttributeError
  | ShareEngineError

text \<open>
  One account entry: the dictionary with the keys \<^verbatim>\<open>sharenumber\<close>, \<^verbatim>\<open>salt\<close> and
  \<^verbatim>\<open>passhash\<close>. \<^verbatim>\<open>unlock_password_data\<close> stores under a fourth key,
  \<^verbatim>\<open>passshash\<close>, which is absent (\<open>None\<close>) until then.
\<close>

record entry =
  sharenumber :: int
  salt :: bytes
  passhash :: bytes
  passshash :: "bytes option"

text \<open>
  The instance attributes. \<open>secret\<close> is the attribute that \<^verbatim>\<open>write_password_data\<close>
  creates with \<^verbatim>\<open>self.secret = None\<close>: \<open>None\<close> while the attribute does not exist,
  \<open>Some ()\<close> once it exists (it only ever holds \<^verbatim>\<open>None\<close>). \<open>objs\<close> and \<open>next_ref\<close>
  are the object store of the entries and its allocation pointer.
\<close>

record 'rs store =
  threshold :: int
  accountdict :: "(string \<times> ref list) list"
  bootstrap_accounts :: "ref list"
  reedsolomonobj :: "'rs option"
  knownsecret :: bool
  secret_integrity_check :: "bytes option"
  isolated_check_bits :: int
  shieldedkey :: "bytes option"
  nextavailableshare :: int
  secret :: "unit option"
  objs :: "ref \<Rightarrow> entry"
  next_ref :: ref

text \<open>
  The imported primitives: \<^verbatim>\<open>sha256(x).digest()\<close>, \<^verbatim>\<open>AES.new(key).encrypt(x)\<close>
  and the \<^verbatim>\<open>reedsolomon.ReedSolomon\<close> object with engine state \<open>'rs\<close>
  (\<open>rs_new\<close> is \<^verbatim>\<open>ReedSolomon(threshold)\<close>, \<open>compute_share\<close> the byte part
  \<^verbatim>\<open>compute_share(x)[1]\<close>, \<open>recover_secretdata\<close> returns the engine after the call
  and what it raised, \<open>secretdata\<close> reads the attribute of that name).
\<close>

record 'rs prims =
  sha256 :: "bytes \<Rightarrow> bytes"
  aes_encrypt :: "bytes \<Rightarrow> bytes \<Rightarrow> bytes"
  rs_new :: "int \<Rightarrow> 'rs"
  compute_share :: "'rs \<Rightarrow> int \<Rightarrow> bytes"
  is_valid_share :: "'rs \<Rightarrow> share \<Rightarrow> bool"
  recover_secretdata :: "'rs \<Rightarrow> share list \<Rightarrow> (error + unit) \<times> 'rs"
  secretdata :: "'rs \<Rightarrow> bytes"

text \<open>Class constants.\<close>

definition saltsize :: int where
  "saltsize = 16"

definition icb_iterations :: int where
  "icb_iterations = 1000"

definition recombination_iterations :: int where
  "recombination_iterations = 100000"

subsection \<open>Python built-ins\<close>

text \<open>
  A slice bound \<open>i\<close> on a sequence of length \<open>n\<close>: a negative bound counts from the
  end, and every bound is clamped to \<open>0..n\<close>. \<open>slice_from xs i\<close> is \<^verbatim>\<open>xs[i:]\<close> and
  \<open>slice_to xs j\<close> is \<^verbatim>\<open>xs[:j]\<close>.
\<close>

definition slice_bound :: "nat \<Rightarrow> int \<Rightarrow> nat" where
  "slice_bound n i = (if i < 0 then nat (max (int n + i) 0) else min (nat i) n)"

definition slice_from :: "'a list \<Rightarrow> int \<Rightarrow> 'a list" where
  "slice_from xs i = drop (slice_bound (length xs) i) xs"

definition slice_to :: "'a list \<Rightarrow> int \<Rightarrow> 'a list" where
  "slice_to xs j = take (slice_bound (length xs) j) xs"

text \<open>\<^verbatim>\<open>range(a, b)\<close>.\<close>

definition py_range :: "int \<Rightarrow> int \<Rightarrow> int list" where
  "py_range a b = [a..b - 1]"

text \<open>
  \<^verbatim>\<open>max(m, x)\<close> where \<open>m\<close> may be \<^verbatim>\<open>None\<close>: Python 2 orders \<^verbatim>\<open>None\<close> below
  every integer.
\<close>

fun py_max :: "int option \<Rightarrow> int \<Rightarrow> int option" where
  "py_max None x = Some x"
| "py_max (Some m) x = Some (max m x)"

subsection \<open>Private helper\<close>

definition do_bytearray_XOR :: "bytes \<Rightarrow> bytes \<Rightarrow> error + bytes" where
  "do_bytearray_XOR a b =
     (if length a \<noteq> length b then Inl AssertionError
      else Inr (map2 (XOR) a b))"

subsection \<open>Isolated validation and secret verification\<close>

text \<open>
  \<^verbatim>\<open>for i in range(1, n): d = sha256(d).digest()\<close>, the loop shared by
  \<^verbatim>\<open>create_isolated_validation_bits\<close> and \<^verbatim>\<open>verify_secret\<close>.
\<close>

definition hash_loop :: "'rs prims \<Rightarrow> int \<Rightarrow> bytes \<Rightarrow> bytes" where
  "hash_loop P n d = fold (\<lambda>i x. sha256 P x) (py_range 1 n) d"

definition create_isolated_validation_bits :: "'rs prims \<Rightarrow> 'rs store \<Rightarrow> bytes \<Rightarrow> bytes" where
  "create_isolated_validation_bits P st ph =
     (let icbs = isolated_check_bits st;
          ph' = hash_loop P icb_iterations ph
      in slice_from ph' (int (length ph') - icbs))"

definition isolated_validation :: "'rs prims \<Rightarrow> 'rs store \<Rightarrow> bytes \<Rightarrow> bytes \<Rightarrow> bool" where
  "isolated_validation P st ph stored_hash =
     (let passhash_icb = create_isolated_validation_bits P st ph;
          local_icb = slice_from stored_hash (int (length stored_hash) - isolated_check_bits st)
      in passhash_icb = local_icb)"

definition verify_secret :: "'rs prims \<Rightarrow> 'rs store \<Rightarrow> bytes \<Rightarrow> bool" where
  "verify_secret P st s =
     (Some (hash_loop P recombination_iterations (sha256 P s)) = secret_integrity_check st)"

subsection \<open>The object store\<close>

definition new_entry :: "'rs store \<Rightarrow> entry \<Rightarrow> ref \<times> 'rs store" where
  "new_entry st e =
     (next_ref st, st\<lparr>objs := (objs st)(next_ref st := e), next_ref := Suc (next_ref st)\<rparr>)"

text \<open>\<^verbatim>\<open>self.accountdict[username].append(thisentry)\<close>, with \<open>a\<close> the reference to the entry.\<close>

definition append_entry :: "'rs store \<Rightarrow> string \<Rightarrow> ref \<Rightarrow> 'rs store" where
  "append_entry st username a =
     st\<lparr>accountdict := AList.map_entry username (\<lambda>refs. refs @ [a]) (accountdict st)\<rparr>"

subsection \<open>Loading a password file\<close>

text \<open>
  The second half of \<^verbatim>\<open>__init__\<close>. \<open>passwordfiledata\<close> is the object that
  \<^verbatim>\<open>pickle.load\<close> returns; the new object takes its \<^verbatim>\<open>accountdict\<close> (and with it
  the entries) and its \<^verbatim>\<open>secret_integrity_check\<close>. The class attribute
  \<^verbatim>\<open>nextavailableshare\<close> starts as \<^verbatim>\<open>None\<close>, and \<^verbatim>\<open>None + None\<close> raises.
\<close>

definition largest_share :: "'rs store \<Rightarrow> int option" where
  "largest_share pfd =
     fold (\<lambda>username m.
             fold (\<lambda>a m'. py_max m' (sharenumber (objs pfd a)))
                  (case map_of (accountdict pfd) username of None \<Rightarrow> [] | Some refs \<Rightarrow> refs) m)
          (map fst (accountdict pfd)) None"

definition init_from_file :: "'rs prims \<Rightarrow> int \<Rightarrow> 'rs store \<Rightarrow> int \<Rightarrow> error + 'rs store" where
  "init_from_file P thr passwordfiledata icbs =
     (case largest_share passwordfiledata of
        None \<Rightarrow> Inl TypeError
      | Some n \<Rightarrow>
          Inr \<lparr> threshold = thr,
                accountdict = accountdict passwordfiledata,
                bootstrap_accounts = [],
                reedsolomonobj = Some (rs_new P thr),
                knownsecret = False,
                secret_integrity_check = secret_integrity_check passwordfiledata,
                isolated_check_bits = icbs,
                shieldedkey = None,
                nextavailableshare = n + n,
                secret = None,
                objs = objs passwordfiledata,
                next_ref = next_ref passwordfiledata \<rparr>)"

subsection \<open>create_account\<close>

text \<open>
  \<open>urandom i\<close> is what the \<open>i\<close>-th call of \<^verbatim>\<open>os.urandom(self.saltsize)\<close> made by this
  invocation returns.
\<close>

fun create_account_loop ::
  "'rs prims \<Rightarrow> 'rs store \<Rightarrow> string \<Rightarrow> bytes \<Rightarrow> int list \<Rightarrow> (nat \<Rightarrow> bytes) \<Rightarrow> nat
     \<Rightarrow> (error + unit) \<times> 'rs store" where
  "create_account_loop P st username password [] urandom i = (Inr (), st)"
| "create_account_loop P st username password (sn # sns) urandom i =
     (case reedsolomonobj st of
        None \<Rightarrow> (Inl AttributeError, st)
      | Some rs \<Rightarrow>
          (let reedsolomondata = compute_share P rs sn;
               s = urandom i;
               saltedpasswordhash = sha256 P (s @ password)
           in case do_bytearray_XOR saltedpasswordhash reedsolomondata of
                Inl err \<Rightarrow> (Inl err, st)
              | Inr x \<Rightarrow>
                  (let thisentry = \<lparr> sharenumber = sn, salt = s,
                         passhash = x @ create_isolated_validation_bits P st saltedpasswordhash,
                         passshash = None \<rparr>;
                       (a, st1) = new_entry st thisentry
                   in create_account_loop P (append_entry st1 username a) username password
                        sns urandom (Suc i))))"

text \<open>The \<^verbatim>\<open>for sharenumber in range(...)\<close> loop and the increment of the counter after it.\<close>

definition create_account_shares ::
  "'rs prims \<Rightarrow> 'rs store \<Rightarrow> string \<Rightarrow> bytes \<Rightarrow> int \<Rightarrow> (nat \<Rightarrow> bytes) \<Rightarrow> nat
     \<Rightarrow> (error + unit) \<times> 'rs store" where
  "create_account_shares P st username password shares urandom i =
     (case create_account_loop P st username password
             (py_range (nextavailableshare st) (nextavailableshare st + shares)) urandom i of
        (Inl err, st') \<Rightarrow> (Inl err, st')
      | (Inr u, st') \<Rightarrow> (Inr (), st'\<lparr>nextavailableshare := nextavailableshare st' + shares\<rparr>))"

definition create_account ::
  "'rs prims \<Rightarrow> 'rs store \<Rightarrow> string \<Rightarrow> bytes \<Rightarrow> int \<Rightarrow> (nat \<Rightarrow> bytes)
     \<Rightarrow> (error + unit) \<times> 'rs store" where
  "create_account P st username password shares urandom =
     (if map_of (accountdict st) username \<noteq> None then (Inl DuplicateUser, st)
      else if shares > 255 \<or> shares < 0 then (Inl InvalidShares, st)
      else if shares + nextavailableshare st > 255 then (Inl ShareExhausted, st)
      else
        (let st1 = st\<lparr>accountdict := AList.update username [] (accountdict st)\<rparr>
         in if \<not> knownsecret st1 then
              (if shares \<noteq> 0
               then (Inl BootstrapOnly,
                     st1\<lparr>accountdict := AList.delete username (accountdict st1)\<rparr>)
               else
                 (let s = urandom 0;
                      saltedpasswordhash = sha256 P (s @ password);
                      thisentry = \<lparr> sharenumber = - 1, salt = s,
                         passhash = saltedpasswordhash, passshash = None \<rparr>;
                      (a, st2) = new_entry st1 thisentry;
                      st3 = append_entry st2 username a;
                      st4 = st3\<lparr>bootstrap_accounts := bootstrap_accounts st3 @ [a]\<rparr>
                  in create_account_shares P st4 username password shares urandom 1))
            else if shares = 0 then
              (let s = urandom 0;
                   saltedpasswordhash = sha256 P (s @ password)
               in case shieldedkey st1 of
                    None \<Rightarrow> (Inl TypeError, st1)
                  | Some key \<Rightarrow>
                      (let thisentry = \<lparr> sharenumber = 0, salt = s,
                             passhash = aes_encrypt P key saltedpasswordhash
                                        @ create_isolated_validation_bits P st1 saltedpasswordhash,
                             passshash = None \<rparr>;
                           (a, st2) = new_entry st1 thisentry
                       in (Inr (), append_entry st2 username a)))
            else create_account_shares P st1 username password shares urandom 0))"

subsection \<open>is_valid_login\<close>

text \<open>
  The body of \<^verbatim>\<open>for entry in self.accountdict[username]\<close> for one entry.
  \<open>Inr (Some v)\<close> is \<^verbatim>\<open>return v\<close>; \<open>Inr None\<close> would be the end of the body without
  a \<^verbatim>\<open>return\<close>, which lets the loop go on to the next entry. The local variable
  \<^verbatim>\<open>isolated_check\<close> only decides whether a warning is printed and is left out.
\<close>

definition check_entry ::
  "'rs prims \<Rightarrow> 'rs store \<Rightarrow> bytes \<Rightarrow> entry \<Rightarrow> (error + bool option) \<times> 'rs store" where
  "check_entry P st password e =
     (let saltedpasswordhash = sha256 P (salt e @ password)
      in if sharenumber e = - 1 then (Inr (Some (saltedpasswordhash = passhash e)), st)
         else if \<not> knownsecret st then
           (if isolated_validation P st saltedpasswordhash (passhash e)
            then (Inr (Some True), st)
            else (Inr (Some False), st))
         else
           (case do_bytearray_XOR saltedpasswordhash
                   (slice_to (passhash e) (int (length (passhash e)) - isolated_check_bits st)) of
              Inl err \<Rightarrow> (Inl err, st)
            | Inr sharedata \<Rightarrow>
                if sharenumber e = 0 then
                  (case shieldedkey st of
                     None \<Rightarrow> (Inl TypeError, st)
                   | Some key \<Rightarrow>
                       if aes_encrypt P key saltedpasswordhash
                          = slice_to (passhash e)
                              (int (length (passhash e)) - isolated_check_bits st)
                       then (Inr (Some True), st)
                       else (Inr (Some False), st))
                else
                  (case reedsolomonobj st of
                     None \<Rightarrow> (Inl AttributeError, st)
                   | Some rs \<Rightarrow>
                       if is_valid_share P rs (sharenumber e, sharedata)
                       then (Inr (Some True), st)
                       else (Inr (Some False), st))))"

text \<open>
  The loop. Falling off its end is the end of the method, which returns \<^verbatim>\<open>None\<close>:
  the verdict \<open>Inr None\<close>.
\<close>

fun is_valid_login_loop ::
  "'rs prims \<Rightarrow> 'rs store \<Rightarrow> bytes \<Rightarrow> ref list \<Rightarrow> (error + bool option) \<times> 'rs store" where
  "is_valid_login_loop P st password [] = (Inr None, st)"
| "is_valid_login_loop P st password (a # rest) =
     (case check_entry P st password (objs st a) of
        (Inl err, st') \<Rightarrow> (Inl err, st')
      | (Inr (Some v), st') \<Rightarrow> (Inr (Some v), st')
      | (Inr None, st') \<Rightarrow> is_valid_login_loop P st' password rest)"

definition is_valid_login ::
  "'rs prims \<Rightarrow> 'rs store \<Rightarrow> string \<Rightarrow> bytes \<Rightarrow> (error + bool option) \<times> 'rs store" where
  "is_valid_login P st username password =
     (if \<not> knownsecret st \<and> isolated_check_bits st = 0 then (Inl StillBootstrapping, st)
      else case map_of (accountdict st) username of
             None \<Rightarrow> (Inl UnknownUser, st)
           | Some refs \<Rightarrow> is_valid_login_loop P st password refs)"

subsection \<open>write_password_data\<close>

text \<open>
  \<open>dumps\<close> is \<^verbatim>\<open>pickle.dumps\<close>, applied to the object as it is at that moment; the
  method's result is what it writes to the file.
\<close>

definition write_password_data ::
  "('rs store \<Rightarrow> 'f) \<Rightarrow> 'rs store \<Rightarrow> (error + 'f) \<times> 'rs store" where
  "write_password_data dumps st =
     (if threshold st \<ge> nextavailableshare st then (Inl UnderThreshold, st)
      else
        (let secret_backup = knownsecret st;
             shieldedkey_backup = shieldedkey st;
             reedsolomonobj_backup = reedsolomonobj st;
             st1 = st\<lparr>secret := Some ()\<rparr>;
             st2 = st1\<lparr>shieldedkey := None\<rparr>;
             st3 = st2\<lparr>reedsolomonobj := None\<rparr>;
             written = dumps st3;
             st4 = st3\<lparr>knownsecret := secret_backup\<rparr>;
             st5 = st4\<lparr>shieldedkey := shieldedkey_backup\<rparr>;
             st6 = st5\<lparr>reedsolomonobj := reedsolomonobj_backup\<rparr>
         in (Inr written, st6)))"

subsection \<open>unlock_password_data\<close>

text \<open>The inner loop over one submitted user's entries, appending to \<open>sharelist\<close>.\<close>

fun collect_entry_shares ::
  "'rs prims \<Rightarrow> 'rs store \<Rightarrow> bytes \<Rightarrow> ref list \<Rightarrow> share list \<Rightarrow> error + share list" where
  "collect_entry_shares P st password [] sharelist = Inr sharelist"
| "collect_entry_shares P st password (a # rest) sharelist =
     (let e = objs st a
      in if sharenumber e = 0 then collect_entry_shares P st password rest sharelist
         else
           (let thissaltedpasswordhash = sha256 P (salt e @ password)
            in case do_bytearray_XOR thissaltedpasswordhash
                      (slice_to (passhash e)
                         (int (length (passhash e)) - isolated_check_bits st)) of
                 Inl err \<Rightarrow> Inl err
               | Inr x \<Rightarrow>
                   collect_entry_shares P st password rest (sharelist @ [(sharenumber e, x)])))"

text \<open>The outer loop over \<open>logindata\<close>: the list handed to \<^verbatim>\<open>recover_secretdata\<close>.\<close>

fun collect_shares ::
  "'rs prims \<Rightarrow> 'rs store \<Rightarrow> (string \<times> bytes) list \<Rightarrow> share list \<Rightarrow> error + share list" where
  "collect_shares P st [] sharelist = Inr sharelist"
| "collect_shares P st ((username, password) # rest) sharelist =
     (case map_of (accountdict st) username of
        None \<Rightarrow> Inl UnknownUser
      | Some refs \<Rightarrow>
          (case collect_entry_shares P st password refs sharelist of
             Inl err \<Rightarrow> Inl err
           | Inr sharelist' \<Rightarrow> collect_shares P st rest sharelist'))"

text \<open>\<^verbatim>\<open>for entry in self.bootstrap_accounts\<close>: two assignments into each entry.\<close>

fun update_bootstrap_accounts ::
  "'rs prims \<Rightarrow> 'rs store \<Rightarrow> ref list \<Rightarrow> (error + unit) \<times> 'rs store" where
  "update_bootstrap_accounts P st [] = (Inr (), st)"
| "update_bootstrap_accounts P st (a # rest) =
     (case shieldedkey st of
        None \<Rightarrow> (Inl TypeError, st)
      | Some key \<Rightarrow>
          (let st1 = st\<lparr>objs := (objs st)
                      (a := (objs st a)\<lparr>passshash :=
                              Some (aes_encrypt P key (passhash (objs st a)))\<rparr>)\<rparr>;
               st2 = st1\<lparr>objs := (objs st1)(a := (objs st1 a)\<lparr>sharenumber := 0\<rparr>)\<rparr>
           in update_bootstrap_accounts P st2 rest))"

definition unlock_password_data ::
  "'rs prims \<Rightarrow> 'rs store \<Rightarrow> (string \<times> bytes) list \<Rightarrow> (error + unit) \<times> 'rs store" where
  "unlock_password_data P st logindata =
     (if knownsecret st then (Inl AlreadyUnlocked, st)
      else
        (case collect_shares P st logindata [] of
           Inl err \<Rightarrow> (Inl err, st)
         | Inr sharelist \<Rightarrow>
             (case reedsolomonobj st of
                None \<Rightarrow> (Inl AttributeError, st)
              | Some rs \<Rightarrow>
                  (case recover_secretdata P rs sharelist of
                     (Inl err, rs') \<Rightarrow> (Inl err, st\<lparr>reedsolomonobj := Some rs'\<rparr>)
                   | (Inr u, rs') \<Rightarrow>
                       (let st1 = st\<lparr>reedsolomonobj := Some rs'\<rparr>
                        in if \<not> verify_secret P st1 (secretdata P rs')
                           then (Inl BadUnlock, st1)
                           else
                             (let st2 = st1\<lparr>shieldedkey := Some (secretdata P rs')\<rparr>
                              in case update_bootstrap_accounts P st2 (bootstrap_accounts st2) of
                                   (Inl err, st3) \<Rightarrow> (Inl err, st3)
                                 | (Inr u', st3) \<Rightarrow>
                                     (let st4 = st3\<lparr>bootstrap_accounts := []\<rparr>
                                      in (Inr (), st4\<lparr>knownsecret := True\<rparr>))))))))"

section \<open>A small instance to run the model on\<close>

text \<open>
  Stand-ins for the imported primitives, simple enough to evaluate by rewriting. The
  hash pads or cuts its input to 32 bytes and adds one to every byte, the cipher adds
  one to every byte of the block, and the share engine holds the secret itself: the
  share for \<open>x\<close> is the secret with \<open>x\<close> added to every byte, and recovery reads the
  secret back from the first share it is given.
\<close>

definition toy_sha256 :: "bytes \<Rightarrow> bytes" where
  "toy_sha256 x = map (\<lambda>b. b + 1) (take 32 (x @ replicate 32 0))"

definition toy_aes :: "bytes \<Rightarrow> bytes \<Rightarrow> bytes" where
  "toy_aes key x = map (\<lambda>b. b + 1) x"

definition toy_prims :: "bytes prims" where
  "toy_prims =
     \<lparr> sha256 = toy_sha256,
       aes_encrypt = toy_aes,
       rs_new = (\<lambda>k. []),
       compute_share = (\<lambda>rs x. map (\<lambda>b. b + word_of_int x) rs),
       is_valid_share = (\<lambda>rs (x, d). d = map (\<lambda>b. b + word_of_int x) rs),
       recover_secretdata = (\<lambda>rs shares. case shares of
            [] \<Rightarrow> (Inl ShareEngineError, rs)
          | (x, d) # _ \<Rightarrow> (Inr (), map (\<lambda>b. b - word_of_int x) d)),
       secretdata = (\<lambda>rs. rs) \<rparr>"

definition no_entry :: entry where
  "no_entry = \<lparr> sharenumber = 0, salt = [], passhash = [], passshash = None \<rparr>"

definition toy_secret :: bytes where
  "toy_secret = replicate 32 7"

definition pw_a :: bytes where
  "pw_a = [107, 105, 116]"

definition pw_b :: bytes where
  "pw_b = [112, 117, 112]"

definition salt_a :: bytes where
  "salt_a = replicate 16 9"

text \<open>
  The objects of one run, in the order of the module's own test script: a new store
  with threshold 1 (\<open>store_new\<close>), after \<^verbatim>\<open>create_account('alice', pw_a, 1)\<close>
  (\<open>store_alice\<close>) and \<^verbatim>\<open>create_account('bob', pw_b, 1)\<close> (\<open>store_two\<close>), the object that
  \<^verbatim>\<open>write_password_data\<close> pickles (\<open>file_two\<close>), the store loaded from it
  (\<open>store_loaded\<close>), after \<^verbatim>\<open>create_account('boot', pw_b, 0)\<close> while still locked
  (\<open>store_boot\<close>), and after \<^verbatim>\<open>unlock_password_data([('alice', pw_a)])\<close>
  (\<open>store_unlocked\<close>). Each step is checked against the model in the subsection
  on the run below.
\<close>

definition entry_alice :: entry where
  "entry_alice = \<lparr> sharenumber = 1, salt = salt_a,
      passhash = map2 (XOR) (toy_sha256 (salt_a @ pw_a)) (replicate 32 8),
      passshash = None \<rparr>"

definition entry_bob :: entry where
  "entry_bob = \<lparr> sharenumber = 2, salt = salt_a,
      passhash = map2 (XOR) (toy_sha256 (salt_a @ pw_b)) (replicate 32 9),
      passshash = None \<rparr>"

definition entry_boot :: entry where
  "entry_boot = \<lparr> sharenumber = - 1, salt = salt_a,
      passhash = toy_sha256 (salt_a @ pw_b), passshash = None \<rparr>"

definition store_new :: "bytes store" where
  "store_new = \<lparr> threshold = 1, accountdict = [], bootstrap_accounts = [],
      reedsolomonobj = Some toy_secret, knownsecret = True,
      secret_integrity_check = Some (replicate 32 167), isolated_check_bits = 0,
      shieldedkey = Some toy_secret, nextavailableshare = 1, secret = None,
      objs = (\<lambda>_. no_entry), next_ref = 0 \<rparr>"

definition store_alice :: "bytes store" where
  "store_alice = store_new\<lparr> accountdict := [(''alice'', [0])], nextavailableshare := 2,
      objs := (\<lambda>_. no_entry)(0 := entry_alice), next_ref := 1 \<rparr>"

definition store_two :: "bytes store" where
  "store_two = store_alice\<lparr> accountdict := [(''alice'', [0]), (''bob'', [1])],
      nextavailableshare := 3,
      objs := (\<lambda>_. no_entry)(0 := entry_alice, 1 := entry_bob), next_ref := 2 \<rparr>"

definition file_two :: "bytes store" where
  "file_two = store_two\<lparr> secret := Some (), shieldedkey := None, reedsolomonobj := None \<rparr>"

definition store_loaded :: "bytes store" where
  "store_loaded = \<lparr> threshold = 1, accountdict = [(''alice'', [0]), (''bob'', [1])],
      bootstrap_accounts = [], reedsolomonobj = Some [], knownsecret = False,
      secret_integrity_check = Some (replicate 32 167), isolated_check_bits = 0,
      shieldedkey = None, nextavailableshare = 4, secret = None,
      objs = (\<lambda>_. no_entry)(0 := entry_alice, 1 := entry_bob), next_ref = 2 \<rparr>"

definition store_boot :: "bytes store" where
  "store_boot = store_loaded\<lparr>
      accountdict := [(''alice'', [0]), (''bob'', [1]), (''boot'', [2])],
      bootstrap_accounts := [2],
      objs := (\<lambda>_. no_entry)(0 := entry_alice, 1 := entry_bob, 2 := entry_boot),
      next_ref := 3 \<rparr>"

definition store_unlocked :: "bytes store" where
  "store_unlocked = store_boot\<lparr> bootstrap_accounts := [],
      reedsolomonobj := Some toy_secret, knownsecret := True,
      shieldedkey := Some toy_secret,
      objs := (\<lambda>_. no_entry)(0 := entry_alice, 1 := entry_bob,
                2 := entry_boot\<lparr> sharenumber := 0,
                       passshash := Some (toy_aes toy_secret (toy_sha256 (salt_a @ pw_b))) \<rparr>) \<rparr>"

text \<open>
  An unlocked store in which the user \<^verbatim>\<open>admin\<close> holds two protector entries for the
  password \<open>pw_b\<close>, the first of them with a damaged \<^verbatim>\<open>passhash\<close>.
\<close>

definition store_admin :: "bytes store" where
  "store_admin = store_two\<lparr> accountdict := [(''admin'', [0, 1])],
      objs := (\<lambda>_. no_entry)
                (0 := \<lparr> sharenumber = 1, salt = salt_a,
                        passhash = replicate 32 0, passshash = None \<rparr>,
                 1 := entry_bob) \<rparr>"

text \<open>A new store that keeps one byte of isolated validation data.\<close>

definition store_icb :: "bytes store" where
  "store_icb = store_new\<lparr> isolated_check_bits := 1 \<rparr>"

text \<open>
  The same run with one byte of isolated validation data: the two protector accounts
  (\<open>store_icb_two\<close>), the pickled object (\<open>file_icb\<close>), the store loaded from it with
  \<^verbatim>\<open>isolated_check_bits = 1\<close> (\<open>store_icb_loaded\<close>), after
  \<^verbatim>\<open>create_account('boot', pw_b, 0)\<close> (\<open>store_icb_boot\<close>) and after
  \<^verbatim>\<open>unlock_password_data([('alice', pw_a)])\<close> (\<open>store_icb_unlocked\<close>).
\<close>

definition entry_alice_icb :: entry where
  "entry_alice_icb = \<lparr> sharenumber = 1, salt = salt_a,
      passhash = map2 (XOR) (toy_sha256 (salt_a @ pw_a)) (replicate 32 8)
                 @ create_isolated_validation_bits toy_prims store_icb
                     (toy_sha256 (salt_a @ pw_a)),
      passshash = None \<rparr>"

definition entry_bob_icb :: entry where
  "entry_bob_icb = \<lparr> sharenumber = 2, salt = salt_a,
      passhash = map2 (XOR) (toy_sha256 (salt_a @ pw_b)) (replicate 32 9)
                 @ create_isolated_validation_bits toy_prims store_icb
                     (toy_sha256 (salt_a @ pw_b)),
      passshash = None \<rparr>"

definition store_icb_alice :: "bytes store" where
  "store_icb_alice = store_icb\<lparr> accountdict := [(''alice'', [0])], nextavailableshare := 2,
      objs := (\<lambda>_. no_entry)(0 := entry_alice_icb), next_ref := 1 \<rparr>"

definition store_icb_two :: "bytes store" where
  "store_icb_two = store_icb_alice\<lparr> accountdict := [(''alice'', [0]), (''bob'', [1])],
      nextavailableshare := 3,
      objs := (\<lambda>_. no_entry)(0 := entry_alice_icb, 1 := entry_bob_icb), next_ref := 2 \<rparr>"

definition file_icb :: "bytes store" where
  "file_icb = store_icb_two\<lparr> secret := Some (), shieldedkey := None,
      reedsolomonobj := None \<rparr>"

definition store_icb_loaded :: "bytes store" where
  "store_icb_loaded = \<lparr> threshold = 1, accountdict = [(''alice'', [0]), (''bob'', [1])],
      bootstrap_accounts = [], reedsolomonobj = Some [], knownsecret = False,
      secret_integrity_check = Some (replicate 32 167), isolated_check_bits = 1,
      shieldedkey = None, nextavailableshare = 4, secret = None,
      objs = (\<lambda>_. no_entry)(0 := entry_alice_icb, 1 := entry_bob_icb), next_ref = 2 \<rparr>"

definition store_icb_boot :: "bytes store" where
  "store_icb_boot = store_icb_loaded\<lparr>
      accountdict := [(''alice'', [0]), (''bob'', [1]), (''boot'', [2])],
      bootstrap_accounts := [2],
      objs := (\<lambda>_. no_entry)(0 := entry_alice_icb, 1 := entry_bob_icb, 2 := entry_boot),
      next_ref := 3 \<rparr>"

definition store_icb_unlocked :: "bytes store" where
  "store_icb_unlocked = store_icb_boot\<lparr> bootstrap_accounts := [],
      reedsolomonobj := Some toy_secret, knownsecret := True,
      shieldedkey := Some toy_secret,
      objs := (\<lambda>_. no_entry)(0 := entry_alice_icb, 1 := entry_bob_icb,
                2 := entry_boot\<lparr> sharenumber := 0,
                       passshash := Some (toy_aes toy_secret (toy_sha256 (salt_a @ pw_b))) \<rparr>) \<rparr>"

section \<open>Properties\<close>

subsection \<open>Slices, loops and XOR\<close>

lemma slice_to_core:
  "0 \<le> b \<Longrightarrow> int (length suffix) = b \<Longrightarrow>
     slice_to (core @ suffix) (int (length (core @ suffix)) - b) = core"
  by (auto simp: slice_to_def slice_bound_def)

lemma fold_const_funpow: "fold (\<lambda>i. f) xs d = (f ^^ length xs) d"
  by (induction xs arbitrary: d) (simp_all add: funpow_swap1)

lemma hash_loop_funpow: "hash_loop P n d = (sha256 P ^^ nat (n - 1)) d"
  by (simp add: hash_loop_def py_range_def fold_const_funpow)

lemma length_funpow_fixed:
  fixes f :: "'a list \<Rightarrow> 'a list"
  shows "\<forall>x. length (f x) = n \<Longrightarrow> 0 < k \<Longrightarrow> length ((f ^^ k) h) = n"
proof -
  assume len: "\<forall>x. length (f x) = n" and "0 < k"
  then obtain m where "k = Suc m" by (cases k) auto
  then have "(f ^^ k) h = f ((f ^^ m) h)" by simp
  with len show ?thesis by simp
qed

lemma icb_unfold:
  "create_isolated_validation_bits P st h =
     slice_from ((sha256 P ^^ 999) h)
       (int (length ((sha256 P ^^ 999) h)) - isolated_check_bits st)"
  by (simp add: create_isolated_validation_bits_def hash_loop_funpow icb_iterations_def Let_def)

lemma icb_suffix:
  assumes "\<forall>x. length (sha256 P x) = 32"
    and "0 \<le> isolated_check_bits st" and "isolated_check_bits st \<le> 32"
  shows "create_isolated_validation_bits P st h
           = drop (32 - nat (isolated_check_bits st)) ((sha256 P ^^ 999) h)"
    and "length (create_isolated_validation_bits P st h) = nat (isolated_check_bits st)"
proof -
  have len: "length ((sha256 P ^^ 999) h) = 32"
    using assms(1) by (rule length_funpow_fixed) simp
  show "create_isolated_validation_bits P st h
           = drop (32 - nat (isolated_check_bits st)) ((sha256 P ^^ 999) h)"
    using assms(2,3) by (auto simp: icb_unfold len slice_from_def slice_bound_def nat_diff_distrib)
  then show "length (create_isolated_validation_bits P st h) = nat (isolated_check_bits st)"
    using assms(2,3) by (simp add: len)
qed

lemma xor_cancel: "length a = length b \<Longrightarrow> map2 (XOR) a (map2 (XOR) a b) = (b :: bytes)"
proof (induction a arbitrary: b)
  case Nil
  then show ?case by simp
next
  case (Cons x xs)
  then obtain y ys where "b = y # ys" by (cases b) auto
  with Cons show ?case by (simp add: xor.assoc [symmetric])
qed

subsection \<open>Evaluating the small instance\<close>

lemma replicate_numeral_unfold: "replicate (numeral k) x = x # replicate (pred_numeral k) x"
  by (simp add: numeral_eq_Suc)

lemma toy_sel:
  "sha256 toy_prims = toy_sha256"
  "aes_encrypt toy_prims = toy_aes"
  "rs_new toy_prims k = []"
  "compute_share toy_prims rs x = map (\<lambda>b. b + word_of_int x) rs"
  "is_valid_share toy_prims rs (x, d) = (d = map (\<lambda>b. b + word_of_int x) rs)"
  "recover_secretdata toy_prims rs [] = (Inl ShareEngineError, rs)"
  "recover_secretdata toy_prims rs ((x, d) # ys) = (Inr (), map (\<lambda>b. b - word_of_int x) d)"
  "secretdata toy_prims rs = rs"
  by (simp_all add: toy_prims_def)

lemma length_toy_sha256: "length (toy_sha256 x) = 32"
  by (simp add: toy_sha256_def)

lemma toy_sha256_funpow:
  "length x = 32 \<Longrightarrow> (toy_sha256 ^^ n) x = map (\<lambda>b. b + of_nat n) x"
proof (induction n)
  case 0
  then show ?case by (simp add: map_idI)
next
  case (Suc n)
  then show ?case by (simp add: toy_sha256_def add.commute add.left_commute)
qed

lemma toy_hash_loop:
  "length d = 32 \<Longrightarrow> hash_loop toy_prims n d = map (\<lambda>b. b + of_nat (nat (n - 1))) d"
  by (simp add: hash_loop_funpow toy_sel toy_sha256_funpow)

lemmas toy_eval = toy_sel toy_hash_loop length_toy_sha256 replicate_numeral_unfold
  toy_sha256_def toy_aes_def toy_secret_def pw_a_def pw_b_def salt_a_def no_entry_def
  slice_from_def slice_to_def slice_bound_def do_bytearray_XOR_def
  create_isolated_validation_bits_def isolated_validation_def verify_secret_def
  icb_iterations_def recombination_iterations_def new_entry_def append_entry_def
  py_range_def Let_def

lemmas store_eval = store_new_def store_alice_def store_two_def file_two_def
  store_loaded_def store_boot_def store_unlocked_def store_admin_def store_icb_def
  entry_alice_def entry_bob_def entry_boot_def
  entry_alice_icb_def entry_bob_icb_def store_icb_alice_def store_icb_two_def file_icb_def
  store_icb_loaded_def store_icb_boot_def store_icb_unlocked_def

subsection \<open>The run\<close>

lemma run_create_alice:
  "create_account toy_prims store_new ''alice'' pw_a 1 (\<lambda>_. salt_a) = (Inr (), store_alice)"
  by (simp add: create_account_def create_account_shares_def store_eval toy_eval)

lemma run_create_eve:
  "fst (create_account toy_prims store_alice ''eve'' pw_b 0 (\<lambda>_. salt_a)) = Inr ()"
  by (simp add: create_account_def store_eval toy_eval)

lemma run_create_admin:
  "fst (create_account toy_prims store_alice ''admin'' pw_b 2 (\<lambda>_. salt_a)) = Inr ()"
  by (simp add: create_account_def create_account_shares_def store_eval toy_eval upto_rec1)

lemma run_create_bob:
  "create_account toy_prims store_alice ''bob'' pw_b 1 (\<lambda>_. salt_a) = (Inr (), store_two)"
  by (simp add: create_account_def create_account_shares_def store_eval toy_eval)

lemma run_write:
  "write_password_data (\<lambda>obj. obj) store_two = (Inr file_two, store_two\<lparr>secret := Some ()\<rparr>)"
  by (simp add: write_password_data_def store_eval)

lemma run_load: "init_from_file toy_prims 1 file_two 0 = Inr store_loaded"
  by (simp add: init_from_file_def largest_share_def store_eval toy_sel)

lemma run_create_boot:
  "create_account toy_prims store_loaded ''boot'' pw_b 0 (\<lambda>_. salt_a) = (Inr (), store_boot)"
  by (simp add: create_account_def create_account_shares_def store_eval toy_eval fun_upd_twist)

lemma run_unlock:
  "unlock_password_data toy_prims store_boot [(''alice'', pw_a)] = (Inr (), store_unlocked)"
  by (simp add: unlock_password_data_def store_eval toy_eval)

lemma run_unlock_wrong_password:
  "fst (unlock_password_data toy_prims store_boot [(''alice'', pw_b)]) = Inl BadUnlock"
  by (simp add: unlock_password_data_def store_eval toy_eval)

text \<open>The run with one byte of isolated validation data.\<close>

lemma run_icb_create_alice:
  "create_account toy_prims store_icb ''alice'' pw_a 1 (\<lambda>_. salt_a) = (Inr (), store_icb_alice)"
  by (simp add: create_account_def create_account_shares_def store_eval toy_eval)

lemma run_icb_create_bob:
  "create_account toy_prims store_icb_alice ''bob'' pw_b 1 (\<lambda>_. salt_a)
     = (Inr (), store_icb_two)"
  by (simp add: create_account_def create_account_shares_def store_eval toy_eval)

lemma run_icb_write:
  "fst (write_password_data (\<lambda>obj. obj) store_icb_two) = Inr file_icb"
  by (simp add: write_password_data_def store_eval)

lemma run_icb_load: "init_from_file toy_prims 1 file_icb 1 = Inr store_icb_loaded"
  by (simp add: init_from_file_def largest_share_def store_eval toy_sel)

lemma run_icb_create_boot:
  "create_account toy_prims store_icb_loaded ''boot'' pw_b 0 (\<lambda>_. salt_a)
     = (Inr (), store_icb_boot)"
  by (simp add: create_account_def create_account_shares_def store_eval toy_eval fun_upd_twist)

lemma run_icb_unlock:
  "unlock_password_data toy_prims store_icb_boot [(''alice'', pw_a)]
     = (Inr (), store_icb_unlocked)"
  by (simp add: unlock_password_data_def store_eval toy_eval)

subsection \<open>is_valid_login leaves the object alone\<close>

lemma check_entry_store: "snd (check_entry P st password e) = st"
  by (simp add: check_entry_def Let_def split: sum.splits option.splits)

lemma is_valid_login_loop_store: "snd (is_valid_login_loop P st password refs) = st"
proof (induction refs)
  case Nil
  show ?case by simp
next
  case (Cons a rest)
  obtain r st' where c: "check_entry P st password (objs st a) = (r, st')"
    by (cases "check_entry P st password (objs st a)")
  from c have "st' = st"
    using check_entry_store [of P st password "objs st a"] by simp
  with c Cons show ?case
    by (simp split: sum.splits option.splits)
qed

text \<open>
  C10. \<^verbatim>\<open>is_valid_login\<close> is read-only: whether it returns a verdict or raises, the
  object after the call is the object before it, so the account map and its entries,
  the bootstrap ledger, the known-secret flag, the shielded key, the next-available-share
  counter and the integrity fingerprint are all unchanged. (The engine's
  \<^verbatim>\<open>is_valid_share\<close> is a query in this model, so the engine is unchanged as well.)
\<close>

theorem is_valid_login_read_only:
  "snd (is_valid_login P st username password) = st"
  by (simp add: is_valid_login_def is_valid_login_loop_store split: option.splits)

subsection \<open>The outcomes of is_valid_login\<close>

lemma check_entry_returns:
  "fst (check_entry P st password e) \<noteq> Inr None"
  by (simp add: check_entry_def Let_def split: sum.splits option.splits)

lemma check_entry_errors:
  "fst (check_entry P st password e) = Inl err \<Longrightarrow>
     err = AssertionError \<or> err = TypeError \<or> err = AttributeError"
  by (auto simp: check_entry_def Let_def do_bytearray_XOR_def
           split: sum.splits option.splits if_splits)

text \<open>
  Every path through the loop body ends in a \<^verbatim>\<open>return\<close> or raises, so the loop never
  reaches a second entry: the first entry alone decides.
\<close>

lemma is_valid_login_first_record:
  "is_valid_login_loop P st password (a # rest) = check_entry P st password (objs st a)"
proof -
  obtain r st' where c: "check_entry P st password (objs st a) = (r, st')"
    by (cases "check_entry P st password (objs st a)")
  with check_entry_returns [of P st password "objs st a"] have "r \<noteq> Inr None" by simp
  with c show ?thesis by (simp split: sum.splits option.splits)
qed

lemma is_valid_login_loop_errors:
  "fst (is_valid_login_loop P st password refs) = Inl err \<Longrightarrow>
     err = AssertionError \<or> err = TypeError \<or> err = AttributeError"
proof (cases refs)
  case Nil
  assume "fst (is_valid_login_loop P st password refs) = Inl err"
  with Nil show ?thesis by simp
next
  case (Cons a rest)
  assume "fst (is_valid_login_loop P st password refs) = Inl err"
  with Cons show ?thesis
    by (simp add: is_valid_login_first_record check_entry_errors
             del: is_valid_login_loop.simps)
qed

text \<open>
  The two guards, in the order of the source: the bootstrapping check comes before the
  lookup of the user.
\<close>

lemma is_valid_login_still_bootstrapping:
  "fst (is_valid_login P st username password) = Inl StillBootstrapping
     \<longleftrightarrow> \<not> knownsecret st \<and> isolated_check_bits st = 0"
  using is_valid_login_loop_errors [of P st password _ StillBootstrapping]
  by (auto simp: is_valid_login_def split: option.splits)

lemma is_valid_login_unknown_user:
  "fst (is_valid_login P st username password) = Inl UnknownUser
     \<longleftrightarrow> \<not> (\<not> knownsecret st \<and> isolated_check_bits st = 0)
         \<and> map_of (accountdict st) username = None"
  using is_valid_login_loop_errors [of P st password _ UnknownUser]
  by (auto simp: is_valid_login_def split: option.splits)

text \<open>
  For any primitives: in an unlocked store with \<open>b > 0\<close>, an entry that is not a
  bootstrap entry and whose \<^verbatim>\<open>passhash\<close> is just a digest (no suffix) fails the
  assertion of \<^verbatim>\<open>_do_bytearray_XOR\<close>, the core cut from it being \<open>b\<close> bytes short.
\<close>

lemma check_entry_without_suffix:
  assumes "knownsecret st" and "sharenumber e \<noteq> - 1"
    and "length (passhash e) = length (sha256 P (salt e @ password))"
    and "0 < isolated_check_bits st"
    and "isolated_check_bits st \<le> int (length (passhash e))"
  shows "fst (check_entry P st password e) = Inl AssertionError"
  using assms
  by (auto simp: check_entry_def Let_def do_bytearray_XOR_def slice_to_def slice_bound_def)

text \<open>
  C6. The claim says that \<^verbatim>\<open>is_valid_login\<close> raises \<open>StillBootstrapping\<close> or
  \<open>UnknownUser\<close> in the two named cases and returns a boolean verdict in every other
  case. With one byte of isolated validation data, the account \<^verbatim>\<open>boot\<close> is created
  while the store is locked and the store is then unlocked (\<open>store_icb_unlocked\<close>). The
  store is unlocked and the user is in the account map, so neither named case applies,
  yet \<^verbatim>\<open>is_valid_login('boot', pw_b)\<close> raises \<open>AssertionError\<close>: unlock left the raw
  32-byte hash in \<^verbatim>\<open>passhash\<close>, and the login cuts one byte off it before the XOR.
\<close>

theorem login_after_unlock_raises:
  "init_from_file toy_prims 1 file_icb 1 = Inr store_icb_loaded
   \<and> create_account toy_prims store_icb_loaded ''boot'' pw_b 0 (\<lambda>_. salt_a)
       = (Inr (), store_icb_boot)
   \<and> unlock_password_data toy_prims store_icb_boot [(''alice'', pw_a)]
       = (Inr (), store_icb_unlocked)
   \<and> knownsecret store_icb_unlocked
   \<and> isolated_check_bits store_icb_unlocked = 1
   \<and> map_of (accountdict store_icb_unlocked) ''boot'' = Some [2]
   \<and> fst (is_valid_login toy_prims store_icb_unlocked ''boot'' pw_b) = Inl AssertionError
   \<and> fst (is_valid_login toy_prims store_icb_unlocked ''boot'' pw_b) \<noteq> Inl StillBootstrapping
   \<and> fst (is_valid_login toy_prims store_icb_unlocked ''boot'' pw_b) \<noteq> Inl UnknownUser"
proof -
  have login: "fst (is_valid_login toy_prims store_icb_unlocked ''boot'' pw_b)
                 = Inl AssertionError"
    by (simp add: is_valid_login_def check_entry_def store_eval toy_eval)
  have "knownsecret store_icb_unlocked" "isolated_check_bits store_icb_unlocked = 1"
       "map_of (accountdict store_icb_unlocked) ''boot'' = Some [2]"
    by (simp_all add: store_eval)
  with login run_icb_load run_icb_create_boot run_icb_unlock show ?thesis by simp
qed

text \<open>
  C9. The claim says that a later entry which validates the password makes the verdict
  true. In \<open>store_admin\<close> the second entry of \<^verbatim>\<open>admin\<close> validates \<open>pw_b\<close> and the
  first, a protector entry, does not; the method answers from the first entry alone and
  returns \<^verbatim>\<open>False\<close>.
\<close>

theorem login_stops_at_first_record:
  "map_of (accountdict store_admin) ''admin'' = Some [0, 1]
   \<and> sharenumber (objs store_admin 0) = 1
   \<and> fst (check_entry toy_prims store_admin pw_b (objs store_admin 0)) = Inr (Some False)
   \<and> fst (check_entry toy_prims store_admin pw_b (objs store_admin 1)) = Inr (Some True)
   \<and> fst (is_valid_login toy_prims store_admin ''admin'' pw_b) = Inr (Some False)"
  by (simp add: is_valid_login_def check_entry_def store_eval toy_eval)

subsection \<open>Isolated validation bits\<close>

text \<open>
  C7, as the claim states it, fails: the suffix is not cut from the 1000th iterate of
  the hash on the salted hash. With one byte of isolated validation data and the salted
  hash of 32 zero bytes, the two differ.
\<close>

theorem icb_thousand_iterations_counterexample:
  "create_isolated_validation_bits toy_prims store_icb (replicate 32 0)
     \<noteq> drop (32 - 1) ((sha256 toy_prims ^^ 1000) (replicate 32 0))"
  by (simp add: toy_sel toy_sha256_funpow icb_unfold slice_from_def slice_bound_def store_eval)

text \<open>
  C7, amended. For a hash with 32-byte digests and \<open>0 \<le> b \<le> 32\<close>, the isolated-check
  suffix is the last \<open>b\<close> bytes of the hash iterated 999 times on the salted hash \<open>h\<close>:
  the loop is \<^verbatim>\<open>range(1, icb_iterations)\<close>, and \<open>h\<close> is itself already one hash of
  salt and password.
\<close>

theorem icb_is_999_iterations:
  assumes "\<forall>x. length (sha256 P x) = 32"
    and "0 \<le> isolated_check_bits st" and "isolated_check_bits st \<le> 32"
  shows "create_isolated_validation_bits P st h
           = drop (32 - nat (isolated_check_bits st)) ((sha256 P ^^ 999) h)
         \<and> length (create_isolated_validation_bits P st h) = nat (isolated_check_bits st)"
  using icb_suffix [OF assms] by simp

theorem icb_is_999_iterations_witness:
  "(\<forall>x. length (sha256 toy_prims x) = 32)
   \<and> 0 \<le> isolated_check_bits store_icb \<and> isolated_check_bits store_icb \<le> 32
   \<and> create_isolated_validation_bits toy_prims store_icb (replicate 32 0)
       = drop (32 - nat (isolated_check_bits store_icb))
           ((sha256 toy_prims ^^ 999) (replicate 32 0))
   \<and> create_isolated_validation_bits toy_prims store_icb (replicate 32 0) = [231]"
proof -
  have h1: "\<forall>x. length (sha256 toy_prims x) = 32"
    by (simp add: toy_sel length_toy_sha256)
  have h2: "0 \<le> isolated_check_bits store_icb" and h3: "isolated_check_bits store_icb \<le> 32"
    by (simp_all add: store_eval)
  have "create_isolated_validation_bits toy_prims store_icb (replicate 32 0)
          = drop (32 - nat (isolated_check_bits store_icb))
              ((sha256 toy_prims ^^ 999) (replicate 32 0))"
    using icb_is_999_iterations [OF h1 h2 h3, of "replicate 32 0"] by simp
  moreover have "drop (32 - nat (isolated_check_bits store_icb))
                   ((sha256 toy_prims ^^ 999) (replicate 32 0)) = [231]"
    by (simp add: toy_sel toy_sha256_funpow store_eval)
  ultimately show ?thesis using h1 h2 h3 by simp
qed

subsection \<open>create_account, then is_valid_login\<close>

lemma check_entry_shielded:
  assumes "knownsecret st" and "shieldedkey st = Some key"
    and "sharenumber e = 0"
    and "passhash e = aes_encrypt P key (sha256 P (salt e @ password)) @ suffix"
    and "length (aes_encrypt P key (sha256 P (salt e @ password)))
           = length (sha256 P (salt e @ password))"
    and "0 \<le> isolated_check_bits st" and "int (length suffix) = isolated_check_bits st"
  shows "check_entry P st password e = (Inr (Some True), st)"
proof -
  have core: "slice_to (passhash e) (int (length (passhash e)) - isolated_check_bits st)
                = aes_encrypt P key (sha256 P (salt e @ password))"
  proof -
    let ?c = "aes_encrypt P key (sha256 P (salt e @ password))"
    have "slice_to (?c @ suffix) (int (length (?c @ suffix)) - isolated_check_bits st) = ?c"
      using assms(6,7) by (rule slice_to_core)
    then show ?thesis by (simp only: assms(4))
  qed
  show ?thesis
    using assms(1,2,3,5) by (simp add: check_entry_def core do_bytearray_XOR_def Let_def)
qed

lemma check_entry_protector:
  assumes "knownsecret st" and "reedsolomonobj st = Some rs"
    and "sharenumber e \<noteq> 0" and "sharenumber e \<noteq> - 1"
    and "passhash e = map2 (XOR) (sha256 P (salt e @ password)) sharebytes @ suffix"
    and "length sharebytes = length (sha256 P (salt e @ password))"
    and "0 \<le> isolated_check_bits st" and "int (length suffix) = isolated_check_bits st"
    and "is_valid_share P rs (sharenumber e, sharebytes)"
  shows "check_entry P st password e = (Inr (Some True), st)"
proof -
  have core: "slice_to (passhash e) (int (length (passhash e)) - isolated_check_bits st)
                = map2 (XOR) (sha256 P (salt e @ password)) sharebytes"
  proof -
    let ?c = "map2 (XOR) (sha256 P (salt e @ password)) sharebytes"
    have "slice_to (?c @ suffix) (int (length (?c @ suffix)) - isolated_check_bits st) = ?c"
      using assms(7,8) by (rule slice_to_core)
    then show ?thesis by (simp only: assms(5))
  qed
  have unmask: "map2 (XOR) (sha256 P (salt e @ password))
                  (map2 (XOR) (sha256 P (salt e @ password)) sharebytes) = sharebytes"
    using assms(6) by (simp add: xor_cancel)
  show ?thesis
    using assms(1,2,3,4,6,9)
    by (simp add: check_entry_def core unmask do_bytearray_XOR_def Let_def)
qed

text \<open>
  What the loop of \<^verbatim>\<open>create_account\<close> keeps: the flags and the engine, the entries
  that existed before, and the prefix of the user's entry list.
\<close>

lemma create_account_loop_inv:
  "create_account_loop P st username password sns urandom i = (r, st') \<Longrightarrow>
     knownsecret st' = knownsecret st
     \<and> isolated_check_bits st' = isolated_check_bits st
     \<and> reedsolomonobj st' = reedsolomonobj st
     \<and> shieldedkey st' = shieldedkey st
     \<and> next_ref st \<le> next_ref st'
     \<and> (\<forall>a. a < next_ref st \<longrightarrow> objs st' a = objs st a)
     \<and> (\<forall>refs. map_of (accountdict st) username = Some refs \<longrightarrow>
           (\<exists>new. map_of (accountdict st') username = Some (refs @ new)))"
proof (induction sns arbitrary: st i)
  case Nil
  then show ?case by simp
next
  case (Cons sn sns)
  show ?case
  proof (cases "reedsolomonobj st")
    case None
    with Cons.prems show ?thesis by simp
  next
    case (Some rs)
    let ?h = "sha256 P (urandom i @ password)"
    show ?thesis
    proof (cases "do_bytearray_XOR ?h (compute_share P rs sn)")
      case (Inl err)
      with Some Cons.prems show ?thesis by (simp add: Let_def)
    next
      case (Inr x)
      let ?e = "\<lparr> sharenumber = sn, salt = urandom i,
                   passhash = x @ create_isolated_validation_bits P st ?h,
                   passshash = None \<rparr>"
      let ?st1 = "append_entry (snd (new_entry st ?e)) username (next_ref st)"
      from Some Inr Cons.prems
      have run: "create_account_loop P ?st1 username password sns urandom (Suc i) = (r, st')"
        by (simp add: Let_def new_entry_def)
      note ih = Cons.IH [OF run]
      have acc: "\<And>refs. map_of (accountdict st) username = Some refs \<Longrightarrow>
                   map_of (accountdict ?st1) username = Some (refs @ [next_ref st])"
        by (simp add: append_entry_def new_entry_def map_of_map_entry)
      have "\<forall>refs. map_of (accountdict st) username = Some refs \<longrightarrow>
              (\<exists>new. map_of (accountdict st') username = Some (refs @ new))"
      proof (intro allI impI)
        fix refs
        assume "map_of (accountdict st) username = Some refs"
        from acc [OF this] ih obtain new where
          "map_of (accountdict st') username = Some ((refs @ [next_ref st]) @ new)"
          by blast
        then show "\<exists>new. map_of (accountdict st') username = Some (refs @ new)"
          by auto
      qed
      moreover have "\<forall>a. a < next_ref st \<longrightarrow> objs st' a = objs st a"
        using ih by (simp add: append_entry_def new_entry_def)
      moreover have "next_ref st \<le> next_ref st'"
        using ih by (simp add: append_entry_def new_entry_def)
      ultimately show ?thesis
        using ih by (simp add: append_entry_def new_entry_def)
    qed
  qed
qed

lemma create_account_shares_first:
  assumes run: "create_account_shares P st username password shares urandom i = (Inr (), st')"
    and pos: "1 \<le> shares"
    and empty: "map_of (accountdict st) username = Some []"
  shows "\<exists>rs x new.
           reedsolomonobj st = Some rs
           \<and> do_bytearray_XOR (sha256 P (urandom i @ password))
                (compute_share P rs (nextavailableshare st)) = Inr x
           \<and> map_of (accountdict st') username = Some (next_ref st # new)
           \<and> objs st' (next_ref st)
               = \<lparr> sharenumber = nextavailableshare st, salt = urandom i,
                    passhash = x @ create_isolated_validation_bits P st
                                     (sha256 P (urandom i @ password)),
                    passshash = None \<rparr>
           \<and> knownsecret st' = knownsecret st
           \<and> isolated_check_bits st' = isolated_check_bits st
           \<and> reedsolomonobj st' = reedsolomonobj st"
proof -
  let ?n = "nextavailableshare st"
  let ?h = "sha256 P (urandom i @ password)"
  have range: "py_range ?n (?n + shares) = ?n # py_range (?n + 1) (?n + shares)"
    using pos by (simp add: py_range_def upto_rec1)
  from run obtain st2 where
    loop: "create_account_loop P st username password (?n # py_range (?n + 1) (?n + shares))
             urandom i = (Inr (), st2)"
    and st': "st' = st2\<lparr>nextavailableshare := nextavailableshare st2 + shares\<rparr>"
    by (auto simp: create_account_shares_def range split: prod.splits sum.splits)
  from loop obtain rs where rs: "reedsolomonobj st = Some rs"
    by (cases "reedsolomonobj st") auto
  from loop rs obtain x where x: "do_bytearray_XOR ?h (compute_share P rs ?n) = Inr x"
    by (cases "do_bytearray_XOR ?h (compute_share P rs ?n)") (auto simp: Let_def)
  let ?e = "\<lparr> sharenumber = ?n, salt = urandom i,
               passhash = x @ create_isolated_validation_bits P st ?h, passshash = None \<rparr>"
  let ?st1 = "append_entry (snd (new_entry st ?e)) username (next_ref st)"
  from loop rs x
  have rest: "create_account_loop P ?st1 username password (py_range (?n + 1) (?n + shares))
                urandom (Suc i) = (Inr (), st2)"
    by (simp add: Let_def new_entry_def)
  note inv = create_account_loop_inv [OF rest]
  have acc1: "map_of (accountdict ?st1) username = Some [next_ref st]"
    using empty by (simp add: append_entry_def new_entry_def map_of_map_entry)
  from inv acc1 obtain new where
    acc2: "map_of (accountdict st2) username = Some ([next_ref st] @ new)"
    by blast
  have obj: "objs st2 (next_ref st) = ?e"
    using inv by (simp add: append_entry_def new_entry_def)
  have "knownsecret st2 = knownsecret st" "isolated_check_bits st2 = isolated_check_bits st"
       "reedsolomonobj st2 = reedsolomonobj st"
    using inv by (simp_all add: append_entry_def new_entry_def)
  with rs x acc2 obj st' show ?thesis by simp
qed

text \<open>
  C5. In an unlocked store, an account that \<^verbatim>\<open>create_account\<close> has created logs in
  with the password it was created with, whether it is shielded (\<open>shares = 0\<close>), has one
  share or several. The store is one of the data model (\<open>0 \<le> b \<le> 32\<close>, share counter
  at least 1) and the primitives keep their contracts: digests have 32 bytes, the cipher
  keeps the length of its block, and the engine accepts the shares it computes.
\<close>

theorem create_account_then_login:
  assumes unlocked: "knownsecret st"
    and created: "create_account P st username password shares urandom = (Inr (), st')"
    and sha_len: "\<And>x. length (sha256 P x) = 32"
    and aes_len: "\<And>key x. length (aes_encrypt P key x) = length x"
    and engine: "\<And>rs x. reedsolomonobj st = Some rs \<Longrightarrow>
                    is_valid_share P rs (x, compute_share P rs x)"
    and icb_lo: "0 \<le> isolated_check_bits st"
    and icb_hi: "isolated_check_bits st \<le> 32"
    and counter: "1 \<le> nextavailableshare st"
  shows "fst (is_valid_login P st' username password) = Inr (Some True)"
proof -
  let ?st1 = "st\<lparr>accountdict := AList.update username [] (accountdict st)\<rparr>"
  have empty: "map_of (accountdict ?st1) username = Some []"
    by (simp add: update_conv')
  have icb_len: "\<And>h. int (length (create_isolated_validation_bits P ?st1 h))
                     = isolated_check_bits st"
    using icb_suffix(2) [of P ?st1] sha_len icb_lo icb_hi by simp
  from created have shares: "0 \<le> shares"
    by (auto simp: create_account_def split: if_splits)
  show ?thesis
  proof (cases "shares = 0")
    case True
    with created unlocked obtain key where key: "shieldedkey st = Some key"
      by (cases "shieldedkey st") (auto simp: create_account_def Let_def split: if_splits)
    let ?h = "sha256 P (urandom 0 @ password)"
    let ?e = "\<lparr> sharenumber = 0, salt = urandom 0,
                 passhash = aes_encrypt P key ?h @ create_isolated_validation_bits P ?st1 ?h,
                 passshash = None \<rparr>"
    from created unlocked True key
    have st': "st' = append_entry (snd (new_entry ?st1 ?e)) username (next_ref st)"
      by (auto simp: create_account_def Let_def new_entry_def split: if_splits)
    have acc: "map_of (accountdict st') username = Some [next_ref st]"
      using empty by (simp add: st' append_entry_def new_entry_def map_of_map_entry)
    have obj: "objs st' (next_ref st) = ?e"
      by (simp add: st' append_entry_def new_entry_def)
    have flags: "knownsecret st'" "shieldedkey st' = Some key"
                "isolated_check_bits st' = isolated_check_bits st"
      using unlocked key by (simp_all add: st' append_entry_def new_entry_def)
    have "check_entry P st' password ?e = (Inr (Some True), st')"
      by (rule check_entry_shielded [where key = key
                and suffix = "create_isolated_validation_bits P ?st1 ?h"])
         (simp_all add: flags aes_len icb_lo icb_len)
    then show ?thesis
      using flags(1) by (simp add: is_valid_login_def acc obj)
  next
    case False
    with shares have pos: "1 \<le> shares" by simp
    from created unlocked False
    have run: "create_account_shares P ?st1 username password shares urandom 0 = (Inr (), st')"
      by (auto simp: create_account_def Let_def split: if_splits)
    let ?h = "sha256 P (urandom 0 @ password)"
    from create_account_shares_first [OF run pos empty]
    obtain rs x new where rs: "reedsolomonobj st = Some rs"
      and x: "do_bytearray_XOR ?h (compute_share P rs (nextavailableshare st)) = Inr x"
      and acc: "map_of (accountdict st') username = Some (next_ref st # new)"
      and obj: "objs st' (next_ref st)
                  = \<lparr> sharenumber = nextavailableshare st, salt = urandom 0,
                       passhash = x @ create_isolated_validation_bits P ?st1 ?h,
                       passshash = None \<rparr>"
      and flags: "knownsecret st' = knownsecret st"
                 "isolated_check_bits st' = isolated_check_bits st"
                 "reedsolomonobj st' = reedsolomonobj st"
      by auto
    let ?e = "\<lparr> sharenumber = nextavailableshare st, salt = urandom 0,
                 passhash = x @ create_isolated_validation_bits P ?st1 ?h,
                 passshash = None \<rparr>"
    from x have len: "length (compute_share P rs (nextavailableshare st)) = length ?h"
      and xval: "x = map2 (XOR) ?h (compute_share P rs (nextavailableshare st))"
      by (auto simp: do_bytearray_XOR_def split: if_splits)
    have "check_entry P st' password ?e = (Inr (Some True), st')"
      by (rule check_entry_protector [where rs = rs
                and sharebytes = "compute_share P rs (nextavailableshare st)"
                and suffix = "create_isolated_validation_bits P ?st1 ?h"])
         (use counter unlocked rs in
           \<open>simp_all add: flags len xval icb_lo icb_len engine\<close>)
    then show ?thesis
      using flags(1) unlocked by (simp add: is_valid_login_def acc obj)
  qed
qed

text \<open>
  Three accounts made in an unlocked store with the small instance: \<^verbatim>\<open>alice\<close> with
  one share, \<^verbatim>\<open>eve\<close> shielded, \<^verbatim>\<open>admin\<close> with two shares.
\<close>

theorem create_account_then_login_witness:
  "knownsecret store_new
   \<and> create_account toy_prims store_new ''alice'' pw_a 1 (\<lambda>_. salt_a) = (Inr (), store_alice)
   \<and> (\<forall>x. length (sha256 toy_prims x) = 32)
   \<and> (\<forall>key x. length (aes_encrypt toy_prims key x) = length x)
   \<and> (\<forall>rs x. is_valid_share toy_prims rs (x, compute_share toy_prims rs x))
   \<and> 0 \<le> isolated_check_bits store_new \<and> isolated_check_bits store_new \<le> 32
   \<and> 1 \<le> nextavailableshare store_new
   \<and> fst (is_valid_login toy_prims store_alice ''alice'' pw_a) = Inr (Some True)
   \<and> fst (create_account toy_prims store_alice ''eve'' pw_b 0 (\<lambda>_. salt_a)) = Inr ()
   \<and> fst (is_valid_login toy_prims
             (snd (create_account toy_prims store_alice ''eve'' pw_b 0 (\<lambda>_. salt_a)))
             ''eve'' pw_b) = Inr (Some True)
   \<and> fst (create_account toy_prims store_alice ''admin'' pw_b 2 (\<lambda>_. salt_a)) = Inr ()
   \<and> fst (is_valid_login toy_prims
             (snd (create_account toy_prims store_alice ''admin'' pw_b 2 (\<lambda>_. salt_a)))
             ''admin'' pw_b) = Inr (Some True)"
proof -
  have h1: "knownsecret store_new" and k1: "knownsecret store_alice"
    by (simp_all add: store_eval)
  have h3: "\<forall>x. length (sha256 toy_prims x) = 32"
    by (simp add: toy_sel length_toy_sha256)
  have h4: "\<forall>key x. length (aes_encrypt toy_prims key x) = length x"
    by (simp add: toy_sel toy_aes_def)
  have h5: "\<forall>rs x. is_valid_share toy_prims rs (x, compute_share toy_prims rs x)"
    by (simp add: toy_sel)
  have h6: "0 \<le> isolated_check_bits store_new" "isolated_check_bits store_new \<le> 32"
    "1 \<le> nextavailableshare store_new"
    by (simp_all add: store_eval)
  have k6: "0 \<le> isolated_check_bits store_alice" "isolated_check_bits store_alice \<le> 32"
    "1 \<le> nextavailableshare store_alice"
    by (simp_all add: store_eval)
  have eve: "create_account toy_prims store_alice ''eve'' pw_b 0 (\<lambda>_. salt_a)
               = (Inr (), snd (create_account toy_prims store_alice ''eve'' pw_b 0 (\<lambda>_. salt_a)))"
    using run_create_eve by (simp add: prod_eq_iff)
  have admin: "create_account toy_prims store_alice ''admin'' pw_b 2 (\<lambda>_. salt_a)
               = (Inr (), snd (create_account toy_prims store_alice ''admin'' pw_b 2 (\<lambda>_. salt_a)))"
    using run_create_admin by (simp add: prod_eq_iff)
  have a: "fst (is_valid_login toy_prims store_alice ''alice'' pw_a) = Inr (Some True)"
    by (rule create_account_then_login [OF h1 run_create_alice])
       (use h3 h4 h5 h6 in simp_all)
  have b: "fst (is_valid_login toy_prims
             (snd (create_account toy_prims store_alice ''eve'' pw_b 0 (\<lambda>_. salt_a)))
             ''eve'' pw_b) = Inr (Some True)"
    by (rule create_account_then_login [OF k1 eve])
       (use h3 h4 h5 k6 in simp_all)
  have c: "fst (is_valid_login toy_prims
             (snd (create_account toy_prims store_alice ''admin'' pw_b 2 (\<lambda>_. salt_a)))
             ''admin'' pw_b) = Inr (Some True)"
    by (rule create_account_then_login [OF k1 admin])
       (use h3 h4 h5 k6 in simp_all)
  from h1 h3 h4 h5 h6 run_create_alice run_create_eve run_create_admin a b c
  show ?thesis by simp
qed

subsection \<open>unlock_password_data\<close>

lemma update_bootstrap_accounts_ok:
  "shieldedkey st = Some key \<Longrightarrow> fst (update_bootstrap_accounts P st refs) = Inr ()"
  by (induction refs arbitrary: st) (simp_all add: Let_def)

lemma update_bootstrap_accounts_never_fails:
  "update_bootstrap_accounts P st refs = (Inl err, st') \<Longrightarrow> shieldedkey st = Some key \<Longrightarrow> False"
  using update_bootstrap_accounts_ok [of st key P refs] by simp

text \<open>
  C8. \<^verbatim>\<open>unlock_password_data\<close> is all-or-nothing: when it raises on a locked store,
  whatever the reason, the store is still locked (the known-secret flag is false, the
  shielded key is what it was, that is none), and the account map, its entries and the
  bootstrap ledger are what they were; only the share engine may have changed.
\<close>

theorem unlock_failure_keeps_locked:
  assumes "\<not> knownsecret st"
    and "unlock_password_data P st logindata = (Inl err, st')"
  shows "\<not> knownsecret st' \<and> shieldedkey st' = shieldedkey st
         \<and> accountdict st' = accountdict st \<and> objs st' = objs st
         \<and> bootstrap_accounts st' = bootstrap_accounts st
         \<and> st' = st\<lparr>reedsolomonobj := reedsolomonobj st'\<rparr>"
  using assms
  by (auto simp: unlock_password_data_def Let_def
           split: sum.splits option.splits prod.splits if_splits
           dest: update_bootstrap_accounts_never_fails)

text \<open>
  In \<open>store_boot\<close>, unlocking with a wrong password for \<^verbatim>\<open>alice\<close> recovers a secret
  that does not match the fingerprint.
\<close>

theorem unlock_failure_keeps_locked_witness:
  "\<not> knownsecret store_boot
   \<and> fst (unlock_password_data toy_prims store_boot [(''alice'', pw_b)]) = Inl BadUnlock
   \<and> \<not> knownsecret (snd (unlock_password_data toy_prims store_boot [(''alice'', pw_b)]))
   \<and> shieldedkey (snd (unlock_password_data toy_prims store_boot [(''alice'', pw_b)])) = None
   \<and> accountdict (snd (unlock_password_data toy_prims store_boot [(''alice'', pw_b)]))
       = accountdict store_boot
   \<and> objs (snd (unlock_password_data toy_prims store_boot [(''alice'', pw_b)]))
       = objs store_boot"
proof -
  have h1: "\<not> knownsecret store_boot" by (simp add: store_eval)
  have h2: "unlock_password_data toy_prims store_boot [(''alice'', pw_b)]
              = (Inl BadUnlock, snd (unlock_password_data toy_prims store_boot [(''alice'', pw_b)]))"
    using run_unlock_wrong_password by (simp add: prod_eq_iff)
  have "shieldedkey store_boot = None" by (simp add: store_eval)
  with unlock_failure_keeps_locked [OF h1 h2] h1 run_unlock_wrong_password
  show ?thesis by simp
qed

lemma update_bootstrap_accounts_passhash:
  "passhash (objs (snd (update_bootstrap_accounts P st refs)) a) = passhash (objs st a)"
  by (induction refs arbitrary: st) (simp_all add: Let_def split: option.splits)

lemma update_bootstrap_accounts_passhash_rule:
  "update_bootstrap_accounts P st refs = (r, st') \<Longrightarrow>
     passhash (objs st' a) = passhash (objs st a)"
  using update_bootstrap_accounts_passhash [of P st refs a] by simp

text \<open>
  Whatever the primitives are, \<^verbatim>\<open>unlock_password_data\<close> leaves the \<^verbatim>\<open>passhash\<close> of
  every entry as it was: the loop over the bootstrap ledger assigns to the keys
  \<^verbatim>\<open>passshash\<close> and \<^verbatim>\<open>sharenumber\<close> only.
\<close>

lemma unlock_keeps_passhash:
  "passhash (objs (snd (unlock_password_data P st logindata)) a) = passhash (objs st a)"
  by (auto simp: unlock_password_data_def Let_def
           split: sum.splits option.splits prod.splits
           dest: update_bootstrap_accounts_passhash_rule [where a = a])

text \<open>
  C1. The claim says that a successful unlock replaces the \<^verbatim>\<open>passhash\<close> of every
  bootstrap entry by the encryption of the old salted hash followed by its isolated
  validation bits, and that the account then logs in with its password. In \<open>store_boot\<close>
  the unlock succeeds, the ledger is emptied and the entry of \<^verbatim>\<open>boot\<close> gets share
  number 0, but its \<^verbatim>\<open>passhash\<close> is still the raw salted hash (the ciphertext went
  to the key \<^verbatim>\<open>passshash\<close>), and \<^verbatim>\<open>is_valid_login('boot', pw_b)\<close> returns
  \<^verbatim>\<open>False\<close>.
\<close>

theorem unlock_leaves_bootstrap_passhash:
  "sharenumber (objs store_boot 2) = - 1
   \<and> bootstrap_accounts store_boot = [2]
   \<and> map_of (accountdict store_boot) ''boot'' = Some [2]
   \<and> passhash (objs store_boot 2) = sha256 toy_prims (salt (objs store_boot 2) @ pw_b)
   \<and> unlock_password_data toy_prims store_boot [(''alice'', pw_a)] = (Inr (), store_unlocked)
   \<and> shieldedkey store_unlocked = Some toy_secret
   \<and> bootstrap_accounts store_unlocked = []
   \<and> sharenumber (objs store_unlocked 2) = 0
   \<and> passhash (objs store_unlocked 2) = passhash (objs store_boot 2)
   \<and> passhash (objs store_unlocked 2)
       \<noteq> aes_encrypt toy_prims toy_secret (passhash (objs store_boot 2))
          @ create_isolated_validation_bits toy_prims store_unlocked (passhash (objs store_boot 2))
   \<and> passshash (objs store_unlocked 2)
       = Some (aes_encrypt toy_prims toy_secret (passhash (objs store_boot 2)))
   \<and> fst (is_valid_login toy_prims store_unlocked ''boot'' pw_b) = Inr (Some False)"
  by (simp add: unlock_password_data_def is_valid_login_def check_entry_def
        store_eval toy_eval)

text \<open>
  For any primitives, an entry with share number -1 whose \<^verbatim>\<open>passhash\<close>, cut by the
  isolated-check length, is as long as the digest adds a candidate with share number -1.
\<close>

lemma collect_bootstrap_entry:
  assumes "sharenumber (objs st a) = - 1"
    and "length (slice_to (passhash (objs st a))
                   (int (length (passhash (objs st a))) - isolated_check_bits st))
           = length (sha256 P (salt (objs st a) @ password))"
  shows "collect_entry_shares P st password [a] sharelist
           = Inr (sharelist @
                  [(- 1, map2 (XOR) (sha256 P (salt (objs st a) @ password))
                           (slice_to (passhash (objs st a))
                              (int (length (passhash (objs st a))) - isolated_check_bits st)))])"
  using assms by (simp add: Let_def do_bytearray_XOR_def)

text \<open>
  C3. The claim says that bootstrap entries contribute no candidate share. In
  \<open>store_boot\<close>, submitting \<^verbatim>\<open>alice\<close> and the bootstrap account \<^verbatim>\<open>boot\<close> hands the
  share engine two candidates, the second one built from the bootstrap entry, with
  share number -1: the loop skips share number 0 only.
\<close>

theorem unlock_collects_bootstrap_share:
  "\<not> knownsecret store_boot
   \<and> map_of (accountdict store_boot) ''boot'' = Some [2]
   \<and> sharenumber (objs store_boot 2) = - 1
   \<and> collect_shares toy_prims store_boot [(''alice'', pw_a), (''boot'', pw_b)] []
       = Inr [(1, replicate 32 8), (- 1, replicate 32 0)]"
  by (simp add: store_eval toy_eval)

subsection \<open>write_password_data\<close>

text \<open>
  What is pickled is the object with \<^verbatim>\<open>secret\<close>, \<^verbatim>\<open>shieldedkey\<close> and
  \<^verbatim>\<open>reedsolomonobj\<close> set to \<^verbatim>\<open>None\<close> and every other attribute as it is; with a
  pickler that can be read back (an injective one), the output changes with the
  known-secret flag.
\<close>

lemma write_password_data_emits:
  "threshold st < nextavailableshare st \<Longrightarrow>
     fst (write_password_data dumps st)
       = Inr (dumps (st\<lparr>secret := Some (), shieldedkey := None, reedsolomonobj := None\<rparr>))"
  by (simp add: write_password_data_def Let_def)

lemma write_depends_on_knownsecret:
  assumes "inj dumps" and "threshold st < nextavailableshare st"
  shows "fst (write_password_data dumps (st\<lparr>knownsecret := \<not> knownsecret st\<rparr>))
           \<noteq> fst (write_password_data dumps st)"
proof
  assume "fst (write_password_data dumps (st\<lparr>knownsecret := \<not> knownsecret st\<rparr>))
            = fst (write_password_data dumps st)"
  with assms(2)
  have "dumps (st\<lparr>knownsecret := \<not> knownsecret st, secret := Some (), shieldedkey := None,
                  reedsolomonobj := None\<rparr>)
          = dumps (st\<lparr>secret := Some (), shieldedkey := None, reedsolomonobj := None\<rparr>)"
    by (simp add: write_password_data_def Let_def)
  with assms(1)
  have "st\<lparr>knownsecret := \<not> knownsecret st, secret := Some (), shieldedkey := None,
            reedsolomonobj := None\<rparr>
          = st\<lparr>secret := Some (), shieldedkey := None, reedsolomonobj := None\<rparr>"
    by (simp add: inj_eq)
  then have "knownsecret (st\<lparr>knownsecret := \<not> knownsecret st, secret := Some (),
                shieldedkey := None, reedsolomonobj := None\<rparr>)
               = knownsecret (st\<lparr>secret := Some (), shieldedkey := None,
                   reedsolomonobj := None\<rparr>)"
    by (rule arg_cong)
  then show False by simp
qed

text \<open>
  C2. The claim says that the written bytes carry no flag of the known-secret state, so
  that they are the same for the store with its shielded key and flag erased. The method
  clears \<^verbatim>\<open>shieldedkey\<close> and \<^verbatim>\<open>reedsolomonobj\<close>, but assigns \<^verbatim>\<open>self.secret\<close> where it
  means \<^verbatim>\<open>self.knownsecret\<close>: the pickled object of \<open>store_two\<close> has the flag set, and
  differs from what the same store with key and flag erased writes. (The pickler here
  is the identity: the file is the object handed to \<^verbatim>\<open>pickle.dumps\<close>.)
\<close>

theorem write_emits_knownsecret:
  "fst (write_password_data (\<lambda>obj. obj) store_two) = Inr file_two
   \<and> knownsecret file_two
   \<and> shieldedkey file_two = None \<and> reedsolomonobj file_two = None
   \<and> fst (write_password_data (\<lambda>obj. obj)
            (store_two\<lparr>shieldedkey := None, knownsecret := False\<rparr>))
       = Inr (file_two\<lparr>knownsecret := False\<rparr>)
   \<and> file_two\<lparr>knownsecret := False\<rparr> \<noteq> file_two"
proof -
  have "knownsecret (file_two\<lparr>knownsecret := False\<rparr>) \<noteq> knownsecret file_two"
    by (simp add: store_eval)
  then have "file_two\<lparr>knownsecret := False\<rparr> \<noteq> file_two"
    by (metis (no_types))
  then show ?thesis
    by (simp add: write_password_data_def store_eval)
qed

subsection \<open>Loading\<close>

lemma init_from_file_counter:
  "init_from_file P thr passwordfiledata icbs = Inr st \<Longrightarrow>
     largest_share passwordfiledata = Some n \<Longrightarrow> nextavailableshare st = 2 * n"
  by (auto simp: init_from_file_def)

lemma load_without_entries_raises:
  "accountdict passwordfiledata = [] \<Longrightarrow>
     init_from_file P thr passwordfiledata icbs = Inl TypeError"
  by (simp add: init_from_file_def largest_share_def)

text \<open>
  C4. The claim says that after loading, the share counter is one more than the largest
  share number of the protector entries in the file. The file \<open>file_two\<close> holds the
  share numbers 1 and 2; the loaded store's counter is 4, not 3, because the last
  statement of the constructor adds the counter to itself.
\<close>

theorem load_doubles_counter:
  "largest_share file_two = Some 2
   \<and> init_from_file toy_prims 1 file_two 0 = Inr store_loaded
   \<and> nextavailableshare store_loaded = 4"
  by (simp add: init_from_file_def largest_share_def store_eval toy_sel)

end
